theory Spec2Isabelle
  imports Main "HOL-Library.Sublist"
begin

section \<open>Python values and exceptions\<close>

text \<open>
  The module \<^verbatim>\<open>database/db_util.py\<close> is modelled function by function. A Python
  exception is a value of \<open>py_exn\<close>; a call that may raise returns \<open>py_exn + 'a\<close> with
  \<open>Inl\<close> for the exception that leaves the call. \<open>Sqlite3Error\<close> stands for
  \<^verbatim>\<open>sqlite3.Error\<close> and all of its subclasses (OperationalError, ProgrammingError, ...),
  \<open>OtherException\<close> for any exception class the module never names
  (for instance pandas' own DatabaseError).
\<close>

datatype py_exn =
    ValueError string
  | TypeError string
  | KeyError string
  | IndexError string
  | AttributeError string
  | UnboundLocalError string
  | Sqlite3Error string
  | OtherException string

fun is_sqlite3_Error :: "py_exn \<Rightarrow> bool" where
  "is_sqlite3_Error (Sqlite3Error m) = True"
| "is_sqlite3_Error e = False"

fun is_ValueError :: "py_exn \<Rightarrow> bool" where
  "is_ValueError (ValueError m) = True"
| "is_ValueError e = False"

section \<open>\<^verbatim>\<open>datetime.strptime(image_date, '%Y%m%d')\<close>\<close>

text \<open>
  The standard library turns the format \<^verbatim>\<open>%Y%m%d\<close> into the regular expression
  \<^verbatim>\<open>(?P<Y>\d\d\d\d)(?P<m>1[0-2]|0[1-9]|[1-9])(?P<d>3[0-1]|[1-2]\d|0[1-9]|[1-9]| [1-9])\<close>,
  matches it at the start of the string with a backtracking matcher, rejects a match that
  leaves characters over, converts the three groups with \<^verbatim>\<open>int\<close> and builds a date, which
  checks the year and the day of the month. The matcher below returns, for an expression and
  a string, the remainders after every way of matching a prefix, in the order in which a
  backtracking matcher tries them; the first one is the match that \<^verbatim>\<open>re.match\<close> reports.
  A character is a code point below 256, where \<^verbatim>\<open>\d\<close> is exactly \<^verbatim>\<open>[0-9]\<close>.
\<close>

datatype rx = Rng char char | Seq rx rx | Alt rx rx

fun rx_match :: "rx \<Rightarrow> string \<Rightarrow> string list" where
  "rx_match (Rng lo hi) [] = []"
| "rx_match (Rng lo hi) (c # cs) =
     (if (of_char lo :: nat) \<le> of_char c \<and> (of_char c :: nat) \<le> of_char hi then [cs] else [])"
| "rx_match (Seq a b) s = concat (map (rx_match b) (rx_match a s))"
| "rx_match (Alt a b) s = rx_match a s @ rx_match b s"

definition rx_digit :: rx where
  "rx_digit = Rng (CHR ''0'') (CHR ''9'')"

definition rx_lit :: "char \<Rightarrow> rx" where
  "rx_lit c = Rng c c"

definition rx_Y :: rx where
  "rx_Y = Seq rx_digit (Seq rx_digit (Seq rx_digit rx_digit))"

definition rx_m :: rx where
  "rx_m = Alt (Seq (rx_lit (CHR ''1'')) (Rng (CHR ''0'') (CHR ''2'')))
         (Alt (Seq (rx_lit (CHR ''0'')) (Rng (CHR ''1'') (CHR ''9'')))
              (Rng (CHR ''1'') (CHR ''9'')))"

definition rx_d :: rx where
  "rx_d = Alt (Seq (rx_lit (CHR ''3'')) (Rng (CHR ''0'') (CHR ''1'')))
         (Alt (Seq (Rng (CHR ''1'') (CHR ''2'')) rx_digit)
         (Alt (Seq (rx_lit (CHR ''0'')) (Rng (CHR ''1'') (CHR ''9'')))
         (Alt (Rng (CHR ''1'') (CHR ''9''))
              (Seq (rx_lit (CHR '' '')) (Rng (CHR ''1'') (CHR ''9''))))))"

text \<open>A named group: the text it matched, with the remainder of the string.\<close>

definition rx_group :: "rx \<Rightarrow> string \<Rightarrow> (string \<times> string) list" where
  "rx_group r s = map (\<lambda>rest. (take (length s - length rest) s, rest)) (rx_match r s)"

text \<open>\<^verbatim>\<open>int(text)\<close> on the text of a group: decimal digits, after an optional blank.\<close>

definition py_int :: "string \<Rightarrow> nat" where
  "py_int s = foldl (\<lambda>n c. 10 * n + (of_char c - 48)) 0 (filter (\<lambda>c. c \<noteq> CHR '' '') s)"

definition strptime_matches :: "string \<Rightarrow> (nat \<times> nat \<times> nat \<times> string) list" where
  "strptime_matches s =
     concat (map (\<lambda>(y, r1).
       concat (map (\<lambda>(m, r2).
         map (\<lambda>(d, r3). (py_int y, py_int m, py_int d, r3)) (rx_group rx_d r2))
       (rx_group rx_m r1)))
     (rx_group rx_Y s))"

record datetime =
  year :: nat
  month :: nat
  day :: nat

definition is_leap :: "nat \<Rightarrow> bool" where
  "is_leap y = (if y mod 400 = 0 then True else if y mod 100 = 0 then False else y mod 4 = 0)"

definition days_in_month :: "nat \<Rightarrow> nat \<Rightarrow> nat" where
  "days_in_month y m =
     (if m = 2 then (if is_leap y then 29 else 28)
      else if m = 4 \<or> m = 6 \<or> m = 9 \<or> m = 11 then 30
      else 31)"

text \<open>
  \<open>image_date\<close> is the keyword argument of \<^verbatim>\<open>pull_data\<close>: a string, or \<open>None\<close> for
  Python's \<^verbatim>\<open>None\<close> (its default). The messages of the exceptions raised here are never
  read by the module.
\<close>

definition strptime_Ymd :: "string option \<Rightarrow> py_exn + datetime" where
  "strptime_Ymd image_date =
     (case image_date of
        None \<Rightarrow> Inl (TypeError ''strptime() argument 1 must be str, not None'')
      | Some s \<Rightarrow>
          (case strptime_matches s of
             [] \<Rightarrow> Inl (ValueError ''time data does not match format'')
           | (y, m, d, rest) # _ \<Rightarrow>
               if rest \<noteq> [] then Inl (ValueError (''unconverted data remains: '' @ rest))
               else if y < 1 then Inl (ValueError ''year 0 is out of range'')
               else if days_in_month y m < d then Inl (ValueError ''day is out of range for month'')
               else Inr \<lparr>year = y, month = m, day = d\<rparr>))"

section \<open>\<^verbatim>\<open>strftime('%Y-%m-%d')\<close>\<close>

text \<open>
  \<^verbatim>\<open>datetime.strftime\<close> hands the format to the C library of the platform. Month and day
  are always two digits. The year (\<^verbatim>\<open>%Y\<close>) is its decimal numeral, which some platforms
  pad with zeros to four digits and others (glibc, with the Python versions of this
  module's time) do not: \<^verbatim>\<open>datetime(500, 1, 1).strftime('%Y-%m-%d')\<close> is
  \<^verbatim>\<open>0500-01-01\<close> on the former and \<^verbatim>\<open>500-01-01\<close> on the latter. The platform is a parameter
  of the model. \<open>zdigits w n\<close> is the numeral of \<open>n\<close> in exactly \<open>w\<close> digits, \<open>decimal n\<close>
  the numeral without padding.
\<close>

definition digit_char :: "nat \<Rightarrow> char" where
  "digit_char n = char_of (48 + n)"

fun zdigits :: "nat \<Rightarrow> nat \<Rightarrow> string" where
  "zdigits 0 n = []"
| "zdigits (Suc w) n = zdigits w (n div 10) @ [digit_char (n mod 10)]"

fun decimal :: "nat \<Rightarrow> string" where
  "decimal n = (if n < 10 then [digit_char n] else decimal (n div 10) @ [digit_char (n mod 10)])"

declare decimal.simps [simp del]

datatype year_style = Zero_padded | Plain

definition strftime_Y :: "year_style \<Rightarrow> nat \<Rightarrow> string" where
  "strftime_Y style y = (case style of Zero_padded \<Rightarrow> zdigits 4 y | Plain \<Rightarrow> decimal y)"

definition strftime_Y_m_d :: "year_style \<Rightarrow> datetime \<Rightarrow> string" where
  "strftime_Y_m_d style dt =
     strftime_Y style (year dt) @ ''-'' @ zdigits 2 (month dt) @ ''-'' @ zdigits 2 (day dt)"

section \<open>\<^verbatim>\<open>str.format\<close> with one positional argument\<close>

text \<open>
  \<^verbatim>\<open>template.format(date)\<close> scans the template from the left: \<^verbatim>\<open>{{\<close> and \<^verbatim>\<open>}}\<close> stand for
  a brace, a lone \<^verbatim>\<open>}\<close> or a \<^verbatim>\<open>{\<close> that is never closed is a ValueError, and
  \<^verbatim>\<open>{name}\<close> is a replacement field. An empty name is numbered automatically, a decimal
  name is a position (mixing the two is a ValueError, a position other than 0 an IndexError,
  since there is one argument), any other name is a keyword (a KeyError, since there is none).
  The argument is a string and is inserted as it is.

  Replacement fields with a conversion (\<^verbatim>\<open>!\<close>), a format specification (\<^verbatim>\<open>:\<close>), an
  attribute (\<^verbatim>\<open>.\<close>) or an index (\<^verbatim>\<open>[\<close>) are outside this model: on such a template the
  result is \<open>None\<close>, which says nothing about what Python does.
\<close>

datatype auto_number = ANS_INIT | ANS_AUTO nat | ANS_MANUAL

definition is_decimal :: "string \<Rightarrow> bool" where
  "is_decimal s = (s \<noteq> [] \<and> list_all (\<lambda>c. (48::nat) \<le> of_char c \<and> of_char c \<le> (57::nat)) s)"

definition index_error :: py_exn where
  "index_error = IndexError ''Replacement index out of range for positional args tuple''"

definition get_field :: "auto_number \<Rightarrow> string \<Rightarrow> string \<Rightarrow> py_exn + (string \<times> auto_number)" where
  "get_field st name arg =
     (if name = [] then
        (case st of
           ANS_MANUAL \<Rightarrow>
             Inl (ValueError ''cannot switch from manual field specification to automatic field numbering'')
         | ANS_INIT \<Rightarrow> Inr (arg, ANS_AUTO 1)
         | ANS_AUTO k \<Rightarrow> if k = 0 then Inr (arg, ANS_AUTO 1) else Inl index_error)
      else if is_decimal name then
        (case st of
           ANS_AUTO k \<Rightarrow>
             Inl (ValueError ''cannot switch from automatic field numbering to manual field specification'')
         | _ \<Rightarrow> if py_int name = 0 then Inr (arg, ANS_MANUAL) else Inl index_error)
      else Inl (KeyError name))"

definition prepend :: "string \<Rightarrow> (py_exn + string) option \<Rightarrow> (py_exn + string) option" where
  "prepend s r = map_option (map_sum id ((@) s)) r"

fun format_literal :: "string \<Rightarrow> auto_number \<Rightarrow> string \<Rightarrow> (py_exn + string) option"
  and format_field :: "string \<Rightarrow> string \<Rightarrow> auto_number \<Rightarrow> string \<Rightarrow> (py_exn + string) option"
where
  "format_literal arg st [] = Some (Inr [])"
| "format_literal arg st (c # cs) =
     (if c = CHR ''{'' then
        (case cs of
           [] \<Rightarrow> Some (Inl (ValueError ''Single '{' encountered in format string''))
         | c2 # cs2 \<Rightarrow>
             if c2 = CHR ''{'' then prepend ''{'' (format_literal arg st cs2)
             else format_field arg [] st cs)
      else if c = CHR ''}'' then
        (case cs of
           [] \<Rightarrow> Some (Inl (ValueError ''Single '}' encountered in format string''))
         | c2 # cs2 \<Rightarrow>
             if c2 = CHR ''}'' then prepend ''}'' (format_literal arg st cs2)
             else Some (Inl (ValueError ''Single '}' encountered in format string'')))
      else prepend [c] (format_literal arg st cs))"
| "format_field arg name st [] = Some (Inl (ValueError ''expected '}' before end of string''))"
| "format_field arg name st (c # cs) =
     (if c = CHR ''}'' then
        (case get_field st name arg of
           Inl e \<Rightarrow> Some (Inl e)
         | Inr (v, st') \<Rightarrow> prepend v (format_literal arg st' cs))
      else if c = CHR ''{'' then Some (Inl (ValueError ''unexpected '{' in field name''))
      else if c \<in> set ''!:.['' then None
      else format_field arg (name @ [c]) st cs)"

definition py_format :: "string \<Rightarrow> string \<Rightarrow> (py_exn + string) option" where
  "py_format template arg = format_literal arg ANS_INIT template"

section \<open>\<^verbatim>\<open>get_query\<close>, the inner function of \<^verbatim>\<open>pull_data\<close>\<close>

text \<open>
  \<open>SELECT_CMD\<close> is \<^verbatim>\<open>config.select_from_table_commands\<close>, a dictionary from query names to
  SQL templates that the sources do not contain: it is a parameter. \<open>image_date\<close> is the
  variable of the enclosing \<^verbatim>\<open>pull_data\<close> that the closure reads, \<open>style\<close> the platform's
  rendering of the year.

  Inside the \<^verbatim>\<open>try\<close>, \<^verbatim>\<open>expected_fmt\<close> is bound first and \<^verbatim>\<open>date\<close> only once
  \<^verbatim>\<open>strptime\<close> and \<^verbatim>\<open>strftime\<close> have returned. The bare \<^verbatim>\<open>except\<close> catches every exception
  of the body and evaluates the f-string
  \<^verbatim>\<open>f"time data '{date}' does not match format '{expected_fmt}'"\<close>:
  with \<^verbatim>\<open>date\<close> still unbound that evaluation raises UnboundLocalError, and this is the
  exception that leaves the function; with \<^verbatim>\<open>date\<close> bound (the dictionary lookup or
  \<^verbatim>\<open>format\<close> failed) the ValueError is built and raised.
\<close>

definition expected_fmt :: string where
  "expected_fmt = ''%Y%m%d''"

definition quoted :: "string \<Rightarrow> string" where
  "quoted s = [CHR 0x27] @ s @ [CHR 0x27]"

definition mismatch_message :: "string \<Rightarrow> string" where
  "mismatch_message date =
     ''time data '' @ quoted date @ '' does not match format '' @ quoted expected_fmt"

definition unbound_date :: py_exn where
  "unbound_date = UnboundLocalError ''local variable 'date' referenced before assignment''"

definition get_query ::
  "year_style \<Rightarrow> (string \<rightharpoonup> string) \<Rightarrow> string option \<Rightarrow> bool \<Rightarrow> bool
     \<Rightarrow> (py_exn + string) option" where
  "get_query style SELECT_CMD image_date filtered_size all =
     (if \<not> all then
        (case strptime_Ymd image_date of
           Inl e \<Rightarrow> Some (Inl unbound_date)
         | Inr dt \<Rightarrow>
             let date = strftime_Y_m_d style dt;
                 size_suffix = (if filtered_size then ''_filtered_size'' else '''')
             in (case SELECT_CMD (''select_images'' @ size_suffix) of
                   None \<Rightarrow> Some (Inl (ValueError (mismatch_message date)))
                 | Some template \<Rightarrow>
                     (case py_format template date of
                        None \<Rightarrow> None
                      | Some (Inl e) \<Rightarrow> Some (Inl (ValueError (mismatch_message date)))
                      | Some (Inr query) \<Rightarrow> Some (Inr query))))
      else
        (case SELECT_CMD ''select_all'' of
           None \<Rightarrow> Some (Inl (KeyError ''select_all''))
         | Some query \<Rightarrow> Some (Inr query)))"

section \<open>The sqlite3 connection and the libraries around it\<close>

text \<open>
  The database engine is not part of the module. A connection is modelled by what the module
  can observe of it: whether it has been closed, the committed contents of the database and
  the contents as the open transaction sees them. The contents are of an arbitrary type
  \<open>'db\<close>. Operations on a closed connection raise \<^verbatim>\<open>sqlite3.ProgrammingError\<close>, a subclass
  of \<^verbatim>\<open>sqlite3.Error\<close>; closing twice is allowed.
\<close>

datatype sql_value = SqlNull | SqlInt int | SqlText string

type_synonym row = "sql_value list"

text \<open>A pandas DataFrame: its columns in order, each a name with the cells of the column.
  \<open>SqlNull\<close> is a missing entry (\<^verbatim>\<open>None\<close> or \<^verbatim>\<open>NaN\<close>).\<close>

type_synonym dataframe = "(string \<times> sql_value list) list"

record 'db connection =
  closed :: bool
  committed :: 'db
  working :: 'db

definition closed_error :: py_exn where
  "closed_error = Sqlite3Error ''Cannot operate on a closed database.''"

definition conn_cursor :: "'db connection \<Rightarrow> py_exn + unit" where
  "conn_cursor c = (if closed c then Inl closed_error else Inr ())"

definition conn_rollback :: "'db connection \<Rightarrow> py_exn + 'db connection" where
  "conn_rollback c = (if closed c then Inl closed_error else Inr (c\<lparr>working := committed c\<rparr>))"

definition conn_commit :: "'db connection \<Rightarrow> py_exn + 'db connection" where
  "conn_commit c = (if closed c then Inl closed_error else Inr (c\<lparr>committed := working c\<rparr>))"

definition conn_close :: "'db connection \<Rightarrow> 'db connection" where
  "conn_close c = c\<lparr>closed := True, working := committed c\<rparr>"

text \<open>
  What the module calls and does not define is a parameter:
  \<^item> \<open>sqlite3_connect path\<close>: \<^verbatim>\<open>sqlite3.connect(path)\<close>, a connection or the exception raised;
  \<^item> \<open>sql_execute query db\<close>: the engine running one statement on the contents \<open>db\<close>, giving
    the new contents and the rows fetched, or the exception raised;
  \<^item> \<open>to_sql df table c\<close>: pandas' \<^verbatim>\<open>df.to_sql(name=table, con=c, if_exists='append',
    index=False)\<close>, giving the connection afterwards and the exception raised, if any;
  \<^item> \<open>read_sql query c\<close>: pandas' \<^verbatim>\<open>pd.read_sql(query, c)\<close>, where \<open>c\<close> is \<open>None\<close> for
    Python's \<^verbatim>\<open>None\<close>;
  \<^item> \<open>year_format\<close>: how the platform renders \<^verbatim>\<open>%Y\<close>.
\<close>

record 'db env =
  sqlite3_connect :: "string \<Rightarrow> py_exn + 'db connection"
  sql_execute :: "string \<Rightarrow> 'db \<Rightarrow> py_exn + ('db \<times> row list)"
  to_sql :: "dataframe \<Rightarrow> string \<Rightarrow> 'db connection \<Rightarrow> 'db connection \<times> py_exn option"
  read_sql :: "string \<Rightarrow> 'db connection option \<Rightarrow> py_exn + dataframe"
  year_format :: year_style

text \<open>
  The constants of \<^verbatim>\<open>config.config\<close> and \<^verbatim>\<open>constants.genericconstants\<close>, which the sources
  do not contain. Modelled from the spec: the label sentinel \<open>IMG_UNLBLED\<close> is a fixed
  placeholder value, here a string.
\<close>

record config =
  SELECT_CMD :: "string \<rightharpoonup> string"
  TABLE_NAME :: string
  DB_PATH :: string
  IMG_LBL :: string
  IMG_UNLBLED :: string

fun exn_message :: "py_exn \<Rightarrow> string" where
  "exn_message (ValueError m) = m"
| "exn_message (TypeError m) = m"
| "exn_message (KeyError m) = m"
| "exn_message (IndexError m) = m"
| "exn_message (AttributeError m) = m"
| "exn_message (UnboundLocalError m) = m"
| "exn_message (Sqlite3Error m) = m"
| "exn_message (OtherException m) = m"

section \<open>\<^verbatim>\<open>class Database\<close>\<close>

text \<open>
  The state a method of \<^verbatim>\<open>Database\<close> works on: the lines printed so far and the attribute
  \<^verbatim>\<open>self.conn\<close>, where \<open>None\<close> is Python's \<^verbatim>\<open>None\<close> (what \<^verbatim>\<open>create_connection\<close> returns
  when the database cannot be opened). A method returns the state it leaves with the
  exception that escapes it (\<open>Inl\<close>) or its result (\<open>Inr\<close>).
\<close>

record 'db state =
  stdout :: "string list"
  self_conn :: "'db connection option"

definition print :: "string \<Rightarrow> 'db state \<Rightarrow> 'db state" where
  "print line s = s\<lparr>stdout := stdout s @ [line]\<rparr>"

definition none_has_no_attribute :: "string \<Rightarrow> py_exn" where
  "none_has_no_attribute name =
     AttributeError (quoted ''NoneType'' @ '' object has no attribute '' @ quoted name)"

definition create_connection ::
  "'db env \<Rightarrow> string \<Rightarrow> string list \<Rightarrow> string list \<times> (py_exn + 'db connection option)" where
  "create_connection env db_path out =
     (case sqlite3_connect env db_path of
        Inr conn \<Rightarrow> (out @ [''SUCCESS: Table Connected''], Inr (Some conn))
      | Inl e \<Rightarrow>
          if is_sqlite3_Error e then (out @ [exn_message e], Inr None)
          else (out, Inl e))"

definition Database_init ::
  "'db env \<Rightarrow> string \<Rightarrow> string list \<Rightarrow> py_exn + 'db state" where
  "Database_init env db_path out =
     (case create_connection env db_path out of
        (out', Inl e) \<Rightarrow> Inl e
      | (out', Inr conn) \<Rightarrow> Inr \<lparr>stdout = out', self_conn = conn\<rparr>)"

definition close_connection :: "'db state \<Rightarrow> 'db state" where
  "close_connection s =
     (case self_conn s of
        None \<Rightarrow> s
      | Some c \<Rightarrow> s\<lparr>self_conn := Some (conn_close c)\<rparr>)"

text \<open>
  The body \<^verbatim>\<open>cur = self.conn.cursor(); cur.execute(query)\<close> shared by \<^verbatim>\<open>execute\<close> and
  \<^verbatim>\<open>read\<close>: attribute access on \<^verbatim>\<open>None\<close> raises AttributeError.
\<close>

definition cursor_execute ::
  "'db env \<Rightarrow> string \<Rightarrow> 'db state \<Rightarrow> 'db state \<times> (py_exn + row list)" where
  "cursor_execute env query s =
     (case self_conn s of
        None \<Rightarrow> (s, Inl (none_has_no_attribute ''cursor''))
      | Some c \<Rightarrow>
          (case conn_cursor c of
             Inl e \<Rightarrow> (s, Inl e)
           | Inr cur \<Rightarrow>
               (case sql_execute env query (working c) of
                  Inl e \<Rightarrow> (s, Inl e)
                | Inr (db', rows) \<Rightarrow> (s\<lparr>self_conn := Some (c\<lparr>working := db'\<rparr>)\<rparr>, Inr rows))))"

text \<open>
  The handler \<^verbatim>\<open>print(message); self.conn.rollback()\<close> of the bare \<^verbatim>\<open>except\<close> clauses.
  Nothing catches what the handler itself raises.
\<close>

definition print_and_rollback :: "string \<Rightarrow> 'db state \<Rightarrow> 'db state \<times> (py_exn + unit)" where
  "print_and_rollback message s =
     (let s1 = print message s in
      case self_conn s1 of
        None \<Rightarrow> (s1, Inl (none_has_no_attribute ''rollback''))
      | Some c \<Rightarrow>
          (case conn_rollback c of
             Inl e \<Rightarrow> (s1, Inl e)
           | Inr c' \<Rightarrow> (s1\<lparr>self_conn := Some c'\<rparr>, Inr ())))"

definition execute ::
  "'db env \<Rightarrow> string \<Rightarrow> string \<Rightarrow> 'db state \<Rightarrow> 'db state \<times> (py_exn + unit)" where
  "execute env operation query s =
     (case cursor_execute env query s of
        (s1, Inr rows) \<Rightarrow> (s1, Inr ())
      | (s1, Inl e) \<Rightarrow> print_and_rollback (''Error in '' @ operation @ '' operation'') s1)"

text \<open>The result of \<^verbatim>\<open>read\<close> is \<open>Some rows\<close> for the list that \<^verbatim>\<open>fetchall\<close> returns and
  \<open>None\<close> for Python's \<^verbatim>\<open>None\<close>, which a function returns when it ends without
  \<^verbatim>\<open>return\<close>. \<open>conditions\<close> is \<open>None\<close> for its default \<^verbatim>\<open>None\<close>.\<close>

definition read_query :: "string \<Rightarrow> string \<Rightarrow> string option \<Rightarrow> string" where
  "read_query table_name cols_needed conditions =
     (case conditions of
        None \<Rightarrow> ''SELECT '' @ cols_needed @ '' FROM '' @ table_name
      | Some cond \<Rightarrow> ''SELECT '' @ cols_needed @ '' FROM '' @ table_name @ '' '' @ cond)"

definition read ::
  "'db env \<Rightarrow> string \<Rightarrow> string \<Rightarrow> string option \<Rightarrow> 'db state
     \<Rightarrow> 'db state \<times> (py_exn + row list option)" where
  "read env table_name cols_needed conditions s =
     (case cursor_execute env (read_query table_name cols_needed conditions) s of
        (s1, Inr rows) \<Rightarrow> (s1, Inr (Some rows))
      | (s1, Inl e) \<Rightarrow>
          (case print_and_rollback ''error in select operation'' s1 of
             (s2, Inl e2) \<Rightarrow> (s2, Inl e2)
           | (s2, Inr u) \<Rightarrow> (s2, Inr None)))"

text \<open>
  \<^verbatim>\<open>update\<close>: \<open>new_vals\<close> is the dictionary as the list of its items in iteration order
  (the loop reads \<^verbatim>\<open>key\<close> and \<^verbatim>\<open>new_vals[key]\<close>), keys and values already as \<^verbatim>\<open>str\<close> gives
  them; \<open>prim_key_id\<close> is a list, indexed at 0 and 1. \<open>py_slice_to q n\<close> is \<^verbatim>\<open>q[:n]\<close>.
\<close>

definition py_slice_to :: "'a list \<Rightarrow> int \<Rightarrow> 'a list" where
  "py_slice_to xs n = (if n < 0 then take (nat (int (length xs) + n)) xs else take (nat n) xs)"

definition py_index :: "'a list \<Rightarrow> nat \<Rightarrow> py_exn + 'a" where
  "py_index xs i = (if i < length xs then Inr (xs ! i) else Inl (IndexError ''list index out of range''))"

definition update_loop :: "string \<Rightarrow> (string \<times> string) list \<Rightarrow> string" where
  "update_loop query new_vals =
     foldl (\<lambda>q (key, val). q @ key @ '' '' @ val @ '' , '') query new_vals"

definition update_query ::
  "string \<Rightarrow> (string \<times> string) list \<Rightarrow> string list \<Rightarrow> py_exn + string" where
  "update_query table_name new_vals prim_key_id =
     (let query = update_loop (''UPDATE '' @ table_name @ '' SET '') new_vals;
          query = py_slice_to query (int (length query) - 3)
      in case py_index prim_key_id 0 of
           Inl e \<Rightarrow> Inl e
         | Inr col \<Rightarrow>
             (case py_index prim_key_id 1 of
                Inl e \<Rightarrow> Inl e
              | Inr val \<Rightarrow> Inr (query @ '' WHERE '' @ col @ '' = '' @ val)))"

definition update ::
  "'db env \<Rightarrow> string \<Rightarrow> (string \<times> string) list \<Rightarrow> string list \<Rightarrow> 'db state
     \<Rightarrow> 'db state \<times> (py_exn + unit)" where
  "update env table_name new_vals prim_key_id s =
     (case update_query table_name new_vals prim_key_id of
        Inl e \<Rightarrow> (s, Inl e)
      | Inr query \<Rightarrow> execute env ''update'' query s)"

section \<open>\<^verbatim>\<open>insert_db\<close>\<close>

text \<open>
  The state of a call: the lines printed so far and the local variable \<^verbatim>\<open>conn\<close>, where
  \<open>None\<close> means that the name is not bound yet. \<open>insert_try\<close> is the body of the
  \<^verbatim>\<open>try\<close> with the exception it raises, if any; \<open>insert_except\<close> the clause
  \<^verbatim>\<open>except sqlite3.Error as error\<close>, which prints and clears an exception of that class and
  leaves any other pending; \<open>insert_finally\<close> the \<^verbatim>\<open>finally\<close> block, which reads
  \<^verbatim>\<open>conn\<close> (an UnboundLocalError when it was never assigned; a connection object is always
  true), closes it and prints, and then lets a pending exception go on.
\<close>

record 'db insert_state =
  printed :: "string list"
  conn :: "'db connection option"

definition tab :: string where
  "tab = [CHR 0x09]"

definition unbound_conn :: py_exn where
  "unbound_conn = UnboundLocalError ''local variable 'conn' referenced before assignment''"

definition insert_try ::
  "'db env \<Rightarrow> dataframe \<Rightarrow> string \<Rightarrow> string \<Rightarrow> string list \<Rightarrow> 'db insert_state \<times> py_exn option" where
  "insert_try env df db_path table_name out =
     (case sqlite3_connect env db_path of
        Inl e \<Rightarrow> (\<lparr>printed = out, conn = None\<rparr>, Some e)
      | Inr c0 \<Rightarrow>
          (let out1 = out @ [tab @ ''a. Connected to Sqlite''] in
           case to_sql env df table_name c0 of
             (c1, Some e) \<Rightarrow> (\<lparr>printed = out1, conn = Some c1\<rparr>, Some e)
           | (c1, None) \<Rightarrow>
               (let out2 = out1 @ [tab @ ''b. Inserted into Database''] in
                case conn_commit c1 of
                  Inl e \<Rightarrow> (\<lparr>printed = out2, conn = Some c1\<rparr>, Some e)
                | Inr c2 \<Rightarrow> (\<lparr>printed = out2, conn = Some (conn_close c2)\<rparr>, None))))"

definition insert_except :: "'db insert_state \<times> py_exn option \<Rightarrow> 'db insert_state \<times> py_exn option" where
  "insert_except r =
     (case r of
        (st, None) \<Rightarrow> (st, None)
      | (st, Some e) \<Rightarrow>
          if is_sqlite3_Error e
          then (st\<lparr>printed := printed st @ [''Failed to Insert into table  '' @ exn_message e]\<rparr>, None)
          else (st, Some e))"

definition insert_finally :: "'db insert_state \<times> py_exn option \<Rightarrow> 'db insert_state \<times> (py_exn + unit)" where
  "insert_finally r =
     (case r of
        (st, pending) \<Rightarrow>
          (case conn st of
             None \<Rightarrow> (st, Inl unbound_conn)
           | Some c \<Rightarrow>
               (let st' = \<lparr>printed = printed st @ [tab @ ''c. Sqlite connection is closed''],
                           conn = Some (conn_close c)\<rparr>
                in case pending of
                     None \<Rightarrow> (st', Inr ())
                   | Some e \<Rightarrow> (st', Inl e))))"

definition insert_db ::
  "'db env \<Rightarrow> dataframe \<Rightarrow> string \<Rightarrow> string \<Rightarrow> string list \<Rightarrow> 'db insert_state \<times> (py_exn + unit)" where
  "insert_db env df db_path table_name out =
     insert_finally (insert_except (insert_try env df db_path table_name out))"

section \<open>\<^verbatim>\<open>pull_data\<close>\<close>

text \<open>
  \<^verbatim>\<open>df[col]\<close> reads a column (KeyError when there is none of that name),
  \<^verbatim>\<open>series.fillna(value)\<close> replaces the missing entries, \<^verbatim>\<open>df[col] = series\<close> replaces
  the column of that name, or adds one at the end.
\<close>

definition df_getitem :: "dataframe \<Rightarrow> string \<Rightarrow> py_exn + sql_value list" where
  "df_getitem df col = (case map_of df col of None \<Rightarrow> Inl (KeyError col) | Some cells \<Rightarrow> Inr cells)"

definition fillna :: "sql_value \<Rightarrow> sql_value list \<Rightarrow> sql_value list" where
  "fillna v cells = map (\<lambda>c. if c = SqlNull then v else c) cells"

fun df_setitem :: "dataframe \<Rightarrow> string \<Rightarrow> sql_value list \<Rightarrow> dataframe" where
  "df_setitem [] col cells = [(col, cells)]"
| "df_setitem ((name, old) # df) col cells =
     (if name = col then (name, cells) # df else (name, old) # df_setitem df col cells)"

text \<open>
  \<^verbatim>\<open>pull_data\<close> sets up logging (another module, not modelled), constructs a
  \<^verbatim>\<open>Database\<close> and chooses the query; \<open>fetch_and_fill\<close> is the rest of its body: it reads
  the table with pandas, fills the label column and logs, where the log line
  \<^verbatim>\<open>df.image_date.unique()\<close> is an AttributeError when the table has no column
  \<^verbatim>\<open>image_date\<close>. The result of \<open>pull_data\<close> is \<open>None\<close> exactly when that of
  \<open>get_query\<close> is.
\<close>

definition fetch_and_fill :: "'db env \<Rightarrow> config \<Rightarrow> string \<Rightarrow> 'db state \<Rightarrow> py_exn + dataframe" where
  "fetch_and_fill env cfg query db =
     (case read_sql env query (self_conn db) of
        Inl e \<Rightarrow> Inl e
      | Inr df \<Rightarrow>
          (case df_getitem df (IMG_LBL cfg) of
             Inl e \<Rightarrow> Inl e
           | Inr labels \<Rightarrow>
               (let df' = df_setitem df (IMG_LBL cfg) (fillna (SqlText (IMG_UNLBLED cfg)) labels)
                in if ''image_date'' \<in> set (map fst df') then Inr df'
                   else Inl (AttributeError ''image_date''))))"

definition pull_data ::
  "'db env \<Rightarrow> config \<Rightarrow> string option \<Rightarrow> bool \<Rightarrow> bool \<Rightarrow> string \<Rightarrow> string list
     \<Rightarrow> (py_exn + dataframe) option" where
  "pull_data env cfg image_date all filtered_size db_path out =
     (case Database_init env db_path out of
        Inl e \<Rightarrow> Some (Inl e)
      | Inr db \<Rightarrow>
          (case get_query (year_format env) (SELECT_CMD cfg) image_date filtered_size all of
             None \<Rightarrow> None
           | Some (Inl e) \<Rightarrow> Some (Inl e)
           | Some (Inr query) \<Rightarrow> Some (fetch_and_fill env cfg query db)))"

section \<open>A small environment to run the model on\<close>

text \<open>
  A database whose contents are the number of rows stored. The empty path cannot be
  opened; there is no table \<^verbatim>\<open>missing\<close>; other statements that start with \<^verbatim>\<open>SELECT\<close>
  or \<^verbatim>\<open>UPDATE\<close> succeed and fetch no rows; anything else is a syntax error of the engine.
\<close>

definition demo_connect :: "string \<Rightarrow> py_exn + nat connection" where
  "demo_connect path =
     (if path = [] then Inl (Sqlite3Error ''unable to open database file'')
      else Inr \<lparr>closed = False, committed = 0, working = 0\<rparr>)"

definition demo_execute :: "string \<Rightarrow> nat \<Rightarrow> py_exn + (nat \<times> row list)" where
  "demo_execute query db =
     (if query = ''SELECT * FROM missing'' then Inl (Sqlite3Error ''no such table: missing'')
      else if take 7 query = ''SELECT '' then Inr (db, [])
      else if take 7 query = ''UPDATE '' then Inr (db, [])
      else Inl (Sqlite3Error ''syntax error''))"

definition demo_to_sql :: "dataframe \<Rightarrow> string \<Rightarrow> nat connection \<Rightarrow> nat connection \<times> py_exn option" where
  "demo_to_sql df table_name c =
     (if table_name = [] then (c, Some (Sqlite3Error ''syntax error''))
      else (c\<lparr>working := working c + (case df of [] \<Rightarrow> 0 | col # _ \<Rightarrow> length (snd col))\<rparr>, None))"

definition demo_table :: dataframe where
  "demo_table =
     [(''image_date'', [SqlText ''2023-01-01'', SqlText ''2023-01-01'']),
      (''label'', [SqlText ''diatom'', SqlNull])]"

definition demo_read_sql :: "string \<Rightarrow> nat connection option \<Rightarrow> py_exn + dataframe" where
  "demo_read_sql query c =
     (case c of
        None \<Rightarrow> Inl (none_has_no_attribute ''cursor'')
      | Some c' \<Rightarrow> Inr demo_table)"

definition demo_env :: "nat env" where
  "demo_env = \<lparr>sqlite3_connect = demo_connect, sql_execute = demo_execute,
               to_sql = demo_to_sql, read_sql = demo_read_sql, year_format = Plain\<rparr>"

definition demo_config :: config where
  "demo_config =
     \<lparr>SELECT_CMD = [''select_all'' \<mapsto> ''SELECT * FROM images'',
                    ''select_images'' \<mapsto>
                       ''SELECT * FROM images WHERE image_date = '' @ ''{}'' @ '' ORDER BY image_id'',
                    ''select_images_filtered_size'' \<mapsto>
                       ''SELECT * FROM images WHERE size > 0 AND image_date = '' @ ''{}'' @ '' LIMIT 9''],
      TABLE_NAME = ''images'', DB_PATH = ''seascape.db'',
      IMG_LBL = ''label'', IMG_UNLBLED = ''unlabeled''\<rparr>"

definition demo_open :: "nat state" where
  "demo_open = \<lparr>stdout = [], self_conn = Some \<lparr>closed = False, committed = 0, working = 0\<rparr>\<rparr>"

section \<open>The statements of the specification\<close>

text \<open>
  The specification's words, as definitions of their own. A valid \<^verbatim>\<open>YYYYMMDD\<close> date is
  eight decimal digits that name a day of the calendar; its reformatting puts a hyphen after
  the year and after the month. A template with a single format placeholder is
  \<open>pre @ ''{}'' @ post\<close> with no brace in \<open>pre\<close> or \<open>post\<close>.
\<close>

definition is_digit :: "char \<Rightarrow> bool" where
  "is_digit c = ((48::nat) \<le> of_char c \<and> of_char c \<le> (57::nat))"

definition valid_yyyymmdd :: "string \<Rightarrow> bool" where
  "valid_yyyymmdd s =
     (length s = 8 \<and> list_all is_digit s \<and>
      1 \<le> py_int (take 4 s) \<and>
      1 \<le> py_int (take 2 (drop 4 s)) \<and> py_int (take 2 (drop 4 s)) \<le> 12 \<and>
      1 \<le> py_int (drop 6 s) \<and>
      py_int (drop 6 s) \<le> days_in_month (py_int (take 4 s)) (py_int (take 2 (drop 4 s))))"

definition hyphenated :: "string \<Rightarrow> string" where
  "hyphenated s = take 4 s @ ''-'' @ take 2 (drop 4 s) @ ''-'' @ drop 6 s"

definition brace_free :: "string \<Rightarrow> bool" where
  "brace_free s = (CHR ''{'' \<notin> set s \<and> CHR ''}'' \<notin> set s)"

text \<open>The statement that \<^verbatim>\<open>update\<close> is specified to build: the assignments
  \<open>col fragment\<close>, separated by \<open>'' , ''\<close>.\<close>

fun assignments :: "(string \<times> string) list \<Rightarrow> string" where
  "assignments [] = []"
| "assignments [(col, fragment)] = col @ '' '' @ fragment"
| "assignments ((col, fragment) # rest) = col @ '' '' @ fragment @ '' , '' @ assignments rest"

definition update_statement :: "string \<Rightarrow> (string \<times> string) list \<Rightarrow> string \<Rightarrow> string \<Rightarrow> string" where
  "update_statement table_name new_vals col val =
     ''UPDATE '' @ table_name @ '' SET '' @ assignments new_vals @ '' WHERE '' @ col @ '' = '' @ val"

section \<open>Parsing and printing dates\<close>

lemma digit_not_blank: "is_digit c \<Longrightarrow> c \<noteq> CHR '' ''"
  by (auto simp: is_digit_def)

lemma digit_char_of_digit: "is_digit c \<Longrightarrow> digit_char (of_char c - 48) = c"
  by (simp add: is_digit_def digit_char_def)

lemma digit_val_less: "is_digit c \<Longrightarrow> of_char c - 48 < (10::nat)"
  by (auto simp: is_digit_def)

lemma py_int_2:
  "is_digit a \<Longrightarrow> is_digit b \<Longrightarrow> py_int [a, b] = 10 * (of_char a - 48) + (of_char b - 48)"
  by (simp add: py_int_def digit_not_blank)

lemma py_int_4:
  "is_digit a \<Longrightarrow> is_digit b \<Longrightarrow> is_digit c \<Longrightarrow> is_digit d \<Longrightarrow>
   py_int [a, b, c, d] =
     1000 * (of_char a - 48) + 100 * (of_char b - 48) + 10 * (of_char c - 48) + (of_char d - 48)"
  by (simp add: py_int_def digit_not_blank)

lemma py_int_4_less:
  assumes "is_digit a" "is_digit b" "is_digit c" "is_digit d"
  shows "py_int [a, b, c, d] < 10000"
  using assms [THEN digit_val_less] by (simp add: py_int_4 assms)

text \<open>What the three groups of the regular expression match on digits.\<close>

lemma group_Y:
  "is_digit a \<Longrightarrow> is_digit b \<Longrightarrow> is_digit c \<Longrightarrow> is_digit d \<Longrightarrow>
   rx_group rx_Y (a # b # c # d # r) = [([a, b, c, d], r)]"
  by (simp add: rx_group_def rx_Y_def rx_digit_def is_digit_def)

lemma group_m:
  "is_digit a \<Longrightarrow> is_digit b \<Longrightarrow> 1 \<le> py_int [a, b] \<Longrightarrow> py_int [a, b] \<le> 12 \<Longrightarrow>
   \<exists>tl. rx_group rx_m (a # b # r) = ([a, b], r) # tl"
  by (auto simp add: py_int_2 rx_group_def rx_m_def rx_lit_def is_digit_def)

lemma group_d:
  "is_digit a \<Longrightarrow> is_digit b \<Longrightarrow> 1 \<le> py_int [a, b] \<Longrightarrow> py_int [a, b] \<le> 31 \<Longrightarrow>
   \<exists>tl. rx_group rx_d (a # b # r) = ([a, b], r) # tl"
  by (auto simp add: py_int_2 rx_group_def rx_d_def rx_lit_def rx_digit_def is_digit_def)

lemma strptime_matches_valid:
  assumes "is_digit a" "is_digit b" "is_digit c" "is_digit d"
      "is_digit e" "is_digit f" "is_digit g" "is_digit h"
      "1 \<le> py_int [e, f]" "py_int [e, f] \<le> 12" "1 \<le> py_int [g, h]" "py_int [g, h] \<le> 31"
  shows "\<exists>tl. strptime_matches [a, b, c, d, e, f, g, h] =
           (py_int [a, b, c, d], py_int [e, f], py_int [g, h], []) # tl"
proof -
  obtain t1 where m: "rx_group rx_m [e, f, g, h] = ([e, f], [g, h]) # t1"
    using group_m [OF assms(5,6,9,10), of "[g, h]"] by blast
  obtain t2 where d: "rx_group rx_d [g, h] = ([g, h], []) # t2"
    using group_d [OF assms(7,8,11,12), of "[]"] by blast
  have y: "rx_group rx_Y [a, b, c, d, e, f, g, h] = [([a, b, c, d], [e, f, g, h])]"
    using assms(1-4) by (rule group_Y)
  show ?thesis
    by (simp add: strptime_matches_def y m d)
qed

lemma days_in_month_le: "days_in_month y m \<le> 31"
  by (simp add: days_in_month_def)

lemma eight_chars:
  assumes "length s = 8"
  obtains a b c d e f g h where "s = [a, b, c, d, e, f, g, h]"
proof -
  from assms obtain a s1 where 1: "s = a # s1" "length s1 = 7" by (cases s) auto
  then obtain b s2 where 2: "s1 = b # s2" "length s2 = 6" by (cases s1) auto
  then obtain c s3 where 3: "s2 = c # s3" "length s3 = 5" by (cases s2) auto
  then obtain d s4 where 4: "s3 = d # s4" "length s4 = 4" by (cases s3) auto
  then obtain e s5 where 5: "s4 = e # s5" "length s5 = 3" by (cases s4) auto
  then obtain f s6 where 6: "s5 = f # s6" "length s6 = 2" by (cases s5) auto
  then obtain g s7 where 7: "s6 = g # s7" "length s7 = 1" by (cases s6) auto
  then obtain h where 8: "s7 = [h]" by (cases s7) auto
  show ?thesis using that 1 2 3 4 5 6 7 8 by simp
qed

lemma strptime_valid:
  assumes "valid_yyyymmdd s"
  shows "strptime_Ymd (Some s) =
           Inr \<lparr>year = py_int (take 4 s), month = py_int (take 2 (drop 4 s)), day = py_int (drop 6 s)\<rparr>"
proof -
  from assms have len: "length s = 8" by (simp add: valid_yyyymmdd_def)
  then obtain a b c d e f g h where s: "s = [a, b, c, d, e, f, g, h]" by (rule eight_chars)
  from assms s have dig: "is_digit a" "is_digit b" "is_digit c" "is_digit d"
      "is_digit e" "is_digit f" "is_digit g" "is_digit h"
    by (simp_all add: valid_yyyymmdd_def)
  from assms s have rng: "1 \<le> py_int [a, b, c, d]" "1 \<le> py_int [e, f]" "py_int [e, f] \<le> 12"
      "1 \<le> py_int [g, h]" "py_int [g, h] \<le> days_in_month (py_int [a, b, c, d]) (py_int [e, f])"
    by (simp_all add: valid_yyyymmdd_def)
  from rng(5) have d31: "py_int [g, h] \<le> 31"
    using days_in_month_le [of "py_int [a, b, c, d]" "py_int [e, f]"] by linarith
  obtain tl where tl: "strptime_matches [a, b, c, d, e, f, g, h] =
      (py_int [a, b, c, d], py_int [e, f], py_int [g, h], []) # tl"
    using strptime_matches_valid [OF dig rng(2,3,4) d31] by blast
  have "strptime_Ymd (Some [a, b, c, d, e, f, g, h]) =
      Inr \<lparr>year = py_int [a, b, c, d], month = py_int [e, f], day = py_int [g, h]\<rparr>"
    using rng by (simp add: strptime_Ymd_def tl)
  then show ?thesis by (simp add: s)
qed

text \<open>Printing the digits of a number gives the digits back.\<close>

lemma divmod10: "z < 10 \<Longrightarrow> (10 * n + z) mod 10 = (z::nat) \<and> (10 * n + z) div 10 = n"
  by simp

lemma zdigits_two:
  "x < 10 \<Longrightarrow> y < 10 \<Longrightarrow> zdigits 2 (10 * x + y) = [digit_char x, digit_char y]"
  by (simp add: numeral_2_eq_2)

lemma zdigits_four:
  assumes "w < 10" "x < 10" "y < 10" "z < 10"
  shows "zdigits 4 (1000 * w + 100 * x + 10 * y + z) =
           [digit_char w, digit_char x, digit_char y, digit_char z]"
proof -
  have e: "1000 * w + 100 * x + 10 * y + z = 10 * (10 * (10 * w + x) + y) + z" by simp
  have four: "(4::nat) = Suc (Suc (Suc (Suc 0)))" by simp
  show ?thesis unfolding e four
    using assms by (simp only: zdigits.simps divmod10 append.simps mod_less)
qed

lemma zdigits_2: "is_digit a \<Longrightarrow> is_digit b \<Longrightarrow> zdigits 2 (py_int [a, b]) = [a, b]"
  by (simp only: py_int_2 zdigits_two digit_val_less digit_char_of_digit)

lemma zdigits_4:
  "is_digit a \<Longrightarrow> is_digit b \<Longrightarrow> is_digit c \<Longrightarrow> is_digit d \<Longrightarrow>
   zdigits 4 (py_int [a, b, c, d]) = [a, b, c, d]"
  by (simp only: py_int_4 zdigits_four digit_val_less digit_char_of_digit)

lemma decimal_four:
  assumes "1000 \<le> n" "n < 10000"
  shows "decimal n = zdigits 4 n"
proof -
  have four: "(4::nat) = Suc (Suc (Suc (Suc 0)))" by simp
  have 1: "decimal n = decimal (n div 10) @ [digit_char (n mod 10)]"
    using assms by (subst decimal.simps) simp
  have 2: "decimal (n div 10) = decimal (n div 10 div 10) @ [digit_char (n div 10 mod 10)]"
    using assms by (subst decimal.simps) simp
  have 3: "decimal (n div 10 div 10) =
      decimal (n div 10 div 10 div 10) @ [digit_char (n div 10 div 10 mod 10)]"
    using assms by (subst decimal.simps) simp
  have 4: "decimal (n div 10 div 10 div 10) = [digit_char (n div 10 div 10 div 10)]"
    using assms by (subst decimal.simps) simp
  have 5: "n div 10 div 10 div 10 mod 10 = n div 10 div 10 div 10"
    using assms by simp
  show ?thesis unfolding four zdigits.simps 1 2 3 4 5 by simp
qed

lemma strftime_valid:
  assumes "valid_yyyymmdd s" and "1000 \<le> py_int (take 4 s)"
  shows "strftime_Y_m_d style
           \<lparr>year = py_int (take 4 s), month = py_int (take 2 (drop 4 s)), day = py_int (drop 6 s)\<rparr>
         = hyphenated s"
proof -
  from assms have len: "length s = 8" by (simp add: valid_yyyymmdd_def)
  then obtain a b c d e f g h where s: "s = [a, b, c, d, e, f, g, h]" by (rule eight_chars)
  from assms s have dig: "is_digit a" "is_digit b" "is_digit c" "is_digit d"
      "is_digit e" "is_digit f" "is_digit g" "is_digit h"
    by (simp_all add: valid_yyyymmdd_def)
  from assms(2) s have big: "1000 \<le> py_int [a, b, c, d]" by simp
  have plain: "decimal (py_int [a, b, c, d]) = zdigits 4 (py_int [a, b, c, d])"
    using big py_int_4_less [OF dig(1-4)] by (rule decimal_four)
  have y: "strftime_Y style (py_int [a, b, c, d]) = [a, b, c, d]"
    by (cases style) (simp_all add: strftime_Y_def plain zdigits_4 dig)
  have "strftime_Y_m_d style
      \<lparr>year = py_int [a, b, c, d], month = py_int [e, f], day = py_int [g, h]\<rparr>
      = [a, b, c, d] @ ''-'' @ [e, f] @ ''-'' @ [g, h]"
    by (simp add: strftime_Y_m_d_def y zdigits_2 dig)
  then show ?thesis by (simp add: s hyphenated_def)
qed

section \<open>Filling the placeholder of a template\<close>

lemma format_literal_plain:
  "brace_free post \<Longrightarrow> format_literal arg st post = Some (Inr post)"
  by (induction post) (auto simp: brace_free_def prepend_def)

lemma format_literal_hole:
  "brace_free pre \<Longrightarrow> brace_free post \<Longrightarrow>
   format_literal arg ANS_INIT (pre @ ''{}'' @ post) = Some (Inr (pre @ arg @ post))"
proof (induction pre)
  case Nil
  then show ?case by (simp add: get_field_def format_literal_plain prepend_def)
next
  case (Cons c pre)
  from Cons.prems have c: "c \<noteq> CHR ''{''" "c \<noteq> CHR ''}''" and pre: "brace_free pre"
    by (auto simp: brace_free_def)
  from Cons.IH [OF pre Cons.prems(2)] c show ?case by (simp add: prepend_def)
qed

lemma py_format_hole:
  "brace_free pre \<Longrightarrow> brace_free post \<Longrightarrow>
   py_format (pre @ ''{}'' @ post) arg = Some (Inr (pre @ arg @ post))"
  unfolding py_format_def by (rule format_literal_hole)

section \<open>Choosing the query\<close>

lemma get_query_unparsed:
  "strptime_Ymd image_date = Inl e \<Longrightarrow>
   get_query style cmds image_date filtered_size False = Some (Inl unbound_date)"
  by (simp add: get_query_def)

lemma strptime_dashed:
  "strptime_Ymd (Some ''2023-01-01'') = Inl (ValueError ''time data does not match format'')"
  by (simp add: strptime_Ymd_def strptime_matches_def rx_group_def rx_Y_def rx_m_def rx_d_def
      rx_digit_def rx_lit_def)

lemma demo_init:
  "Database_init demo_env ''seascape.db'' [] =
     Inr \<lparr>stdout = [''SUCCESS: Table Connected''],
          self_conn = Some \<lparr>closed = False, committed = 0, working = 0\<rparr>\<rparr>"
  by (simp add: Database_init_def create_connection_def demo_env_def demo_connect_def)

text \<open>
  Claim C1. With \<^verbatim>\<open>all = False\<close> and an \<^verbatim>\<open>image_date\<close> that does not parse as
  \<^verbatim>\<open>%Y%m%d\<close> (here \<^verbatim>\<open>"2023-01-01"\<close>, and \<^verbatim>\<open>None\<close>), \<^verbatim>\<open>pull_data\<close> is specified to raise a
  ValueError that says that the date does not match the format. In the code the handler
  builds that message from the variable \<^verbatim>\<open>date\<close>, which is not bound when parsing has
  failed: the exception that reaches the caller is an UnboundLocalError, which is not a
  ValueError, whatever the templates and the platform are.
\<close>

theorem get_query_malformed_date:
  "get_query style cmds (Some ''2023-01-01'') filtered_size False = Some (Inl unbound_date)
   \<and> get_query style cmds None filtered_size False = Some (Inl unbound_date)
   \<and> \<not> is_ValueError unbound_date
   \<and> pull_data demo_env demo_config (Some ''2023-01-01'') False False ''seascape.db'' [] =
       Some (Inl unbound_date)"
proof -
  have 1: "get_query st c (Some ''2023-01-01'') fs False = Some (Inl unbound_date)" for st c fs
    using strptime_dashed by (rule get_query_unparsed)
  have 2: "get_query style cmds None filtered_size False = Some (Inl unbound_date)"
    by (simp add: get_query_def strptime_Ymd_def)
  have 3: "\<not> is_ValueError unbound_date" by (simp add: unbound_date_def)
  show ?thesis by (simp add: 1 2 3 demo_init pull_data_def)
qed

text \<open>
  Claim C7, as amended. With \<^verbatim>\<open>all = False\<close> and an \<^verbatim>\<open>image_date\<close> of eight digits that
  name a day of the calendar in a year from 1000 on, the date is reformatted to
  \<^verbatim>\<open>YYYY-MM-DD\<close> and the query is the template \<^verbatim>\<open>select_images\<close> (\<^verbatim>\<open>filtered_size\<close>
  false) or \<^verbatim>\<open>select_images_filtered_size\<close> (\<^verbatim>\<open>filtered_size\<close> true) with the
  reformatted date in the place of its single placeholder; this is the query that
  \<^verbatim>\<open>pull_data\<close> hands to \<^verbatim>\<open>read_sql\<close>. It holds on every platform.
\<close>

theorem get_query_valid_date:
  assumes "valid_yyyymmdd s" and "1000 \<le> py_int (take 4 s)"
    and "SELECT_CMD cfg ''select_images'' = Some (pre1 @ ''{}'' @ post1)"
    and "SELECT_CMD cfg ''select_images_filtered_size'' = Some (pre2 @ ''{}'' @ post2)"
    and "brace_free pre1" and "brace_free post1" and "brace_free pre2" and "brace_free post2"
  shows "get_query style (SELECT_CMD cfg) (Some s) False False =
           Some (Inr (pre1 @ hyphenated s @ post1))
       \<and> get_query style (SELECT_CMD cfg) (Some s) True False =
           Some (Inr (pre2 @ hyphenated s @ post2))
       \<and> pull_data env cfg (Some s) False False db_path out =
           (case Database_init env db_path out of
              Inl e \<Rightarrow> Some (Inl e)
            | Inr db \<Rightarrow> Some (fetch_and_fill env cfg (pre1 @ hyphenated s @ post1) db))
       \<and> pull_data env cfg (Some s) False True db_path out =
           (case Database_init env db_path out of
              Inl e \<Rightarrow> Some (Inl e)
            | Inr db \<Rightarrow> Some (fetch_and_fill env cfg (pre2 @ hyphenated s @ post2) db))"
proof -
  have date: "strptime_Ymd (Some s) =
      Inr \<lparr>year = py_int (take 4 s), month = py_int (take 2 (drop 4 s)), day = py_int (drop 6 s)\<rparr>"
    using assms(1) by (rule strptime_valid)
  have iso: "strftime_Y_m_d st
      \<lparr>year = py_int (take 4 s), month = py_int (take 2 (drop 4 s)), day = py_int (drop 6 s)\<rparr>
      = hyphenated s" for st
    using assms(1,2) by (rule strftime_valid)
  have f1: "py_format (pre1 @ ''{}'' @ post1) (hyphenated s) = Some (Inr (pre1 @ hyphenated s @ post1))"
    using assms(5,6) by (rule py_format_hole)
  have f2: "py_format (pre2 @ ''{}'' @ post2) (hyphenated s) = Some (Inr (pre2 @ hyphenated s @ post2))"
    using assms(7,8) by (rule py_format_hole)
  have q1: "get_query st (SELECT_CMD cfg) (Some s) False False =
      Some (Inr (pre1 @ hyphenated s @ post1))" for st
    using assms(3) f1 by (simp add: get_query_def date iso Let_def)
  have q2: "get_query st (SELECT_CMD cfg) (Some s) True False =
      Some (Inr (pre2 @ hyphenated s @ post2))" for st
    using assms(4) f2 by (simp add: get_query_def date iso Let_def)
  show ?thesis
    by (simp add: q1 q2 pull_data_def split: sum.split)
qed

lemma valid_20230101: "valid_yyyymmdd ''20230101''"
  by (simp add: valid_yyyymmdd_def is_digit_def py_int_def days_in_month_def)

lemma demo_templates:
  "SELECT_CMD demo_config ''select_images'' =
     Some (''SELECT * FROM images WHERE image_date = '' @ ''{}'' @ '' ORDER BY image_id'')"
  "SELECT_CMD demo_config ''select_images_filtered_size'' =
     Some (''SELECT * FROM images WHERE size > 0 AND image_date = '' @ ''{}'' @ '' LIMIT 9'')"
  "brace_free ''SELECT * FROM images WHERE image_date = ''"
  "brace_free '' ORDER BY image_id''"
  "brace_free ''SELECT * FROM images WHERE size > 0 AND image_date = ''"
  "brace_free '' LIMIT 9''"
  by (simp_all add: demo_config_def brace_free_def)

theorem get_query_valid_date_witness:
  "valid_yyyymmdd ''20230101''
   \<and> 1000 \<le> py_int (take 4 ''20230101'')
   \<and> get_query Plain (SELECT_CMD demo_config) (Some ''20230101'') False False =
       Some (Inr ''SELECT * FROM images WHERE image_date = 2023-01-01 ORDER BY image_id'')
   \<and> get_query Zero_padded (SELECT_CMD demo_config) (Some ''20230101'') True False =
       Some (Inr ''SELECT * FROM images WHERE size > 0 AND image_date = 2023-01-01 LIMIT 9'')"
proof -
  have y: "1000 \<le> py_int (take 4 ''20230101'')" by (simp add: py_int_def)
  have h: "hyphenated ''20230101'' = ''2023-01-01''" by (simp add: hyphenated_def)
  show ?thesis
    using get_query_valid_date [OF valid_20230101 y demo_templates, of Plain demo_env "[]" "[]"]
      get_query_valid_date [OF valid_20230101 y demo_templates, of Zero_padded demo_env "[]" "[]"]
      valid_20230101 y
    by (simp add: h)
qed

text \<open>
  The claim as the specification states it, for every valid date: where the platform does
  not pad the year, the date \<^verbatim>\<open>05000101\<close> (1 January 500) is valid and goes into the query
  as \<^verbatim>\<open>500-01-01\<close>, which is not its reformatting \<^verbatim>\<open>0500-01-01\<close>.
\<close>

theorem get_query_small_year:
  "valid_yyyymmdd ''05000101''
   \<and> get_query Plain (SELECT_CMD demo_config) (Some ''05000101'') False False =
       Some (Inr ''SELECT * FROM images WHERE image_date = 500-01-01 ORDER BY image_id'')
   \<and> get_query Plain (SELECT_CMD demo_config) (Some ''05000101'') False False \<noteq>
       Some (Inr (''SELECT * FROM images WHERE image_date = '' @ hyphenated ''05000101''
                  @ '' ORDER BY image_id''))"
  by code_simp

text \<open>
  Claim C8. With \<^verbatim>\<open>all = True\<close> the query is the template \<^verbatim>\<open>select_all\<close> (a KeyError
  if the dictionary has none), whatever \<^verbatim>\<open>image_date\<close> and \<^verbatim>\<open>filtered_size\<close> are: no date
  is parsed. \<^verbatim>\<open>pull_data\<close> constructs the \<^verbatim>\<open>Database\<close> and hands exactly that template,
  unformatted, to \<^verbatim>\<open>read_sql\<close>; so it does the same as with no date and no size filter.
\<close>

theorem pull_data_all:
  "get_query style cmds image_date filtered_size True =
     (case cmds ''select_all'' of
        None \<Rightarrow> Some (Inl (KeyError ''select_all''))
      | Some query \<Rightarrow> Some (Inr query))
   \<and> pull_data env cfg image_date True filtered_size db_path out =
       (case Database_init env db_path out of
          Inl e \<Rightarrow> Some (Inl e)
        | Inr db \<Rightarrow>
            (case SELECT_CMD cfg ''select_all'' of
               None \<Rightarrow> Some (Inl (KeyError ''select_all''))
             | Some query \<Rightarrow> Some (fetch_and_fill env cfg query db)))
   \<and> pull_data env cfg image_date True filtered_size db_path out =
       pull_data env cfg None True False db_path out"
proof -
  have q: "get_query st c d fs True =
      (case c ''select_all'' of
         None \<Rightarrow> Some (Inl (KeyError ''select_all''))
       | Some query \<Rightarrow> Some (Inr query))" for st c d fs
    by (simp add: get_query_def)
  have r: "pull_data env cfg d True fs db_path out =
      (case Database_init env db_path out of
         Inl e \<Rightarrow> Some (Inl e)
       | Inr db \<Rightarrow>
           (case SELECT_CMD cfg ''select_all'' of
              None \<Rightarrow> Some (Inl (KeyError ''select_all''))
            | Some query \<Rightarrow> Some (fetch_and_fill env cfg query db)))" for d fs
    by (simp add: pull_data_def q split: sum.split option.split)
  have p: "pull_data env cfg image_date True filtered_size db_path out =
      pull_data env cfg None True False db_path out"
    by (simp only: r)
  from q r p show ?thesis by blast
qed

section \<open>The methods of \<^verbatim>\<open>Database\<close>\<close>

text \<open>
  On a connection that is open, \<^verbatim>\<open>execute\<close> does what the specification says: a
  statement that fails is reported on the output under the name of the operation, the
  transaction is rolled back, and nothing is raised.
\<close>

lemma execute_open_connection:
  assumes "self_conn s = Some c" and "\<not> closed c"
  shows "execute env operation query s =
           (case sql_execute env query (working c) of
              Inl e \<Rightarrow>
                (s\<lparr>stdout := stdout s @ [''Error in '' @ operation @ '' operation''],
                   self_conn := Some (c\<lparr>working := committed c\<rparr>)\<rparr>, Inr ())
            | Inr (db', rows) \<Rightarrow> (s\<lparr>self_conn := Some (c\<lparr>working := db'\<rparr>)\<rparr>, Inr ()))"
  using assms
  by (simp add: execute_def cursor_execute_def conn_cursor_def print_and_rollback_def print_def
      conn_rollback_def split: sum.splits prod.splits)

text \<open>
  Claim C2. \<^verbatim>\<open>execute\<close> is specified never to let an exception escape, whatever the state
  of the connection, a \<^verbatim>\<open>Database\<close> whose handle is \<^verbatim>\<open>None\<close> included. In the code the
  handler of the bare \<^verbatim>\<open>except\<close> calls \<^verbatim>\<open>self.conn.rollback()\<close> unguarded: with the handle
  \<^verbatim>\<open>None\<close> (what \<^verbatim>\<open>create_connection\<close> returns when the database cannot be opened)
  the message is printed and then an AttributeError leaves \<^verbatim>\<open>execute\<close>, for every
  operation label and every query.
\<close>

theorem execute_null_connection:
  "execute env operation query \<lparr>stdout = out, self_conn = None\<rparr> =
     (\<lparr>stdout = out @ [''Error in '' @ operation @ '' operation''], self_conn = None\<rparr>,
      Inl (none_has_no_attribute ''rollback''))"
  by (simp add: execute_def cursor_execute_def print_and_rollback_def print_def)

text \<open>
  On a connection that is open, \<^verbatim>\<open>read\<close> returns \<^verbatim>\<open>None\<close> when the engine fails on the
  statement it has built (after printing and rolling back), and the list of the rows
  fetched when the engine succeeds, which is the empty list when no row matches.
\<close>

lemma read_open_connection:
  assumes "self_conn s = Some c" and "\<not> closed c"
  shows "read env table_name cols_needed conditions s =
           (case sql_execute env (read_query table_name cols_needed conditions) (working c) of
              Inl e \<Rightarrow>
                (s\<lparr>stdout := stdout s @ [''error in select operation''],
                   self_conn := Some (c\<lparr>working := committed c\<rparr>)\<rparr>, Inr None)
            | Inr (db', rows) \<Rightarrow> (s\<lparr>self_conn := Some (c\<lparr>working := db'\<rparr>)\<rparr>, Inr (Some rows)))"
  using assms
  by (simp add: read_def cursor_execute_def conn_cursor_def print_and_rollback_def print_def
      conn_rollback_def split: sum.splits prod.splits)

lemma read_open_connection_demo:
  "snd (read demo_env ''missing'' ''*'' None demo_open) = Inr None
   \<and> snd (read demo_env ''images'' ''*'' None demo_open) = Inr (Some [])
   \<and> snd (read demo_env ''images'' ''*'' (Some ''WHERE size > 9'') demo_open) = Inr (Some [])"
proof -
  have a: "self_conn demo_open = Some \<lparr>closed = False, committed = 0, working = 0\<rparr>"
    by (simp add: demo_open_def)
  have b: "\<not> closed \<lparr>closed = False, committed = 0::nat, working = 0::nat\<rparr>" by simp
  show ?thesis
    using read_open_connection [OF a b, of demo_env "''missing''" "''*''" None]
      read_open_connection [OF a b, of demo_env "''images''" "''*''" None]
      read_open_connection [OF a b, of demo_env "''images''" "''*''" "Some ''WHERE size > 9''"]
    by (simp add: read_query_def demo_env_def demo_execute_def)
qed

text \<open>
  Claim C10. \<^verbatim>\<open>read\<close> is said to return \<^verbatim>\<open>None\<close> whenever the statement it has built
  fails to execute. With the handle \<^verbatim>\<open>None\<close>, or a connection that has been closed, every
  statement fails to execute (\<^verbatim>\<open>self.conn.cursor()\<close> raises), the handler prints, and its
  unguarded \<^verbatim>\<open>self.conn.rollback()\<close> raises again: \<^verbatim>\<open>read\<close> returns nothing, an
  AttributeError (an \<^verbatim>\<open>sqlite3.ProgrammingError\<close> for the closed connection) reaches the
  caller, for every table name, column list and conditions. This is the defect of
  \<^verbatim>\<open>execute\<close> in claim C2.
\<close>

theorem read_null_connection:
  "read env table_name cols_needed conditions \<lparr>stdout = out, self_conn = None\<rparr> =
     (\<lparr>stdout = out @ [''error in select operation''], self_conn = None\<rparr>,
      Inl (none_has_no_attribute ''rollback''))
   \<and> read env table_name cols_needed conditions
       \<lparr>stdout = out, self_conn = Some \<lparr>closed = True, committed = db, working = db\<rparr>\<rparr> =
     (\<lparr>stdout = out @ [''error in select operation''],
       self_conn = Some \<lparr>closed = True, committed = db, working = db\<rparr>\<rparr>,
      Inl closed_error)"
  by (simp add: read_def cursor_execute_def conn_cursor_def print_and_rollback_def print_def
      conn_rollback_def)

subsection \<open>The statement built by \<^verbatim>\<open>update\<close>\<close>

lemma update_loop_assignments:
  "new_vals \<noteq> [] \<Longrightarrow> update_loop q new_vals = (q @ assignments new_vals) @ '' , ''"
proof (induction new_vals arbitrary: q)
  case Nil
  then show ?case by simp
next
  case (Cons p rest)
  obtain col fragment where p: "p = (col, fragment)" by (cases p)
  show ?case
  proof (cases rest)
    case Nil
    then show ?thesis by (simp add: p update_loop_def)
  next
    case (Cons p' rest')
    then have "rest \<noteq> []" by simp
    from Cons.IH [OF this, of "q @ col @ '' '' @ fragment @ '' , ''"]
    have "update_loop (q @ col @ '' '' @ fragment @ '' , '') rest =
        ((q @ col @ '' '' @ fragment @ '' , '') @ assignments rest) @ '' , ''" .
    moreover have "update_loop q (p # rest) = update_loop (q @ col @ '' '' @ fragment @ '' , '') rest"
      by (simp add: p update_loop_def)
    ultimately show ?thesis using Cons by (simp add: p)
  qed
qed

lemma slice_last_three:
  "length t = 3 \<Longrightarrow> py_slice_to (q @ t) (int (length (q @ t)) - 3) = q"
  by (simp add: py_slice_to_def)

text \<open>
  Claim C5. For a mapping \<^verbatim>\<open>new_vals\<close> that is not empty and a row identifier of two
  elements, the loop leaves the statement with one separator \<^verbatim>\<open>" , "\<close> after the last
  assignment, the slice removes exactly that separator, and the statement handed to
  \<^verbatim>\<open>execute\<close> is
  \<^verbatim>\<open>UPDATE <table> SET <col1> <fragment1> , ... <colN> <fragmentN> WHERE <col> = <value>\<close>,
  whatever the lengths of the names and fragments.
\<close>

theorem update_builds_statement:
  assumes "new_vals \<noteq> []"
  shows "update_loop (''UPDATE '' @ table_name @ '' SET '') new_vals =
           (''UPDATE '' @ table_name @ '' SET '' @ assignments new_vals) @ '' , ''
       \<and> update_query table_name new_vals [col, val] =
           Inr (update_statement table_name new_vals col val)
       \<and> update env table_name new_vals [col, val] s =
           execute env ''update'' (update_statement table_name new_vals col val) s"
proof -
  have l: "update_loop (''UPDATE '' @ table_name @ '' SET '') new_vals =
      ((''UPDATE '' @ table_name @ '' SET '') @ assignments new_vals) @ '' , ''"
    using assms by (rule update_loop_assignments)
  have t: "py_slice_to (((''UPDATE '' @ table_name @ '' SET '') @ assignments new_vals) @ '' , '')
       (int (length (((''UPDATE '' @ table_name @ '' SET '') @ assignments new_vals) @ '' , '')) - 3)
      = (''UPDATE '' @ table_name @ '' SET '') @ assignments new_vals"
    by (rule slice_last_three) simp
  have q: "update_query table_name new_vals [col, val] =
      Inr (update_statement table_name new_vals col val)"
    unfolding update_query_def Let_def l t
    by (simp add: py_index_def update_statement_def)
  show ?thesis using l q by (simp add: update_def)
qed

theorem update_builds_statement_witness:
  "[(''a'', ''= 1''), (''bb'', ''= 22'')] \<noteq> []
   \<and> update_query ''t'' [(''a'', ''= 1''), (''bb'', ''= 22'')] [''id'', ''7''] =
       Inr ''UPDATE t SET a = 1 , bb = 22 WHERE id = 7''"
  using update_builds_statement [of "[(''a'', ''= 1''), (''bb'', ''= 22'')]" "''t''" "''id''" "''7''"
      demo_env demo_open]
  by (simp add: update_statement_def)

text \<open>
  Claim C6. With an empty \<^verbatim>\<open>new_vals\<close> the slice removes the last three characters of
  \<^verbatim>\<open>"UPDATE <table> SET "\<close>, which are \<^verbatim>\<open>"ET "\<close>: the statement handed to \<^verbatim>\<open>execute\<close>
  is \<^verbatim>\<open>UPDATE <table> S WHERE <col> = <value>\<close>, in which the keyword \<^verbatim>\<open>SET\<close> no longer
  follows the table name.
\<close>

theorem update_empty_mapping:
  "update_query table_name [] [col, val] =
     Inr (''UPDATE '' @ table_name @ '' S WHERE '' @ col @ '' = '' @ val)
   \<and> \<not> prefix (''UPDATE '' @ table_name @ '' SET'')
         (''UPDATE '' @ table_name @ '' S WHERE '' @ col @ '' = '' @ val)
   \<and> update env table_name [] [col, val] s =
       execute env ''update'' (''UPDATE '' @ table_name @ '' S WHERE '' @ col @ '' = '' @ val) s"
proof -
  have t: "py_slice_to ((''UPDATE '' @ table_name @ '' S'') @ ''ET '')
       (int (length ((''UPDATE '' @ table_name @ '' S'') @ ''ET '')) - 3)
      = ''UPDATE '' @ table_name @ '' S''"
    by (rule slice_last_three) simp
  have e: "''UPDATE '' @ table_name @ '' SET '' = (''UPDATE '' @ table_name @ '' S'') @ ''ET ''"
    by simp
  have q: "update_query table_name [] [col, val] =
      Inr (''UPDATE '' @ table_name @ '' S WHERE '' @ col @ '' = '' @ val)"
    unfolding update_query_def Let_def update_loop_def foldl.simps e t
    by (simp add: py_index_def)
  have p: "\<not> prefix (''UPDATE '' @ table_name @ '' SET'')
         (''UPDATE '' @ table_name @ '' S WHERE '' @ col @ '' = '' @ val)"
    by simp
  show ?thesis using q p by (simp add: update_def)
qed

section \<open>\<^verbatim>\<open>insert_db\<close>: errors and the connection\<close>

text \<open>
  When the connection opens and the append, or the commit, raises an \<^verbatim>\<open>sqlite3.Error\<close>,
  \<^verbatim>\<open>insert_db\<close> prints it and returns normally.
\<close>

lemma insert_db_append_failure:
  assumes "sqlite3_connect env db_path = Inr c0"
    and "to_sql env df table_name c0 = (c1, Some e)" and "is_sqlite3_Error e"
  shows "snd (insert_db env df db_path table_name out) = Inr ()"
  using assms
  by (simp add: insert_db_def insert_try_def insert_except_def insert_finally_def Let_def)

text \<open>
  Claim C3. \<^verbatim>\<open>insert_db\<close> is specified to catch every database error, a failure to open
  the connection included, and not to raise. In the code \<^verbatim>\<open>conn\<close> is assigned inside the
  \<^verbatim>\<open>try\<close>: when \<^verbatim>\<open>sqlite3.connect\<close> raises an \<^verbatim>\<open>sqlite3.Error\<close>, the handler prints
  it, and then the \<^verbatim>\<open>finally\<close> block reads \<^verbatim>\<open>conn\<close>, which is not bound: an
  UnboundLocalError leaves \<^verbatim>\<open>insert_db\<close>, for every dataset and path.
\<close>

theorem insert_db_connect_failure:
  "insert_db (env\<lparr>sqlite3_connect := (\<lambda>path. Inl (Sqlite3Error m))\<rparr>) df db_path table_name out =
     (\<lparr>printed = out @ [''Failed to Insert into table  '' @ m], conn = None\<rparr>, Inl unbound_conn)"
  by (simp add: insert_db_def insert_try_def insert_except_def insert_finally_def)

text \<open>
  Claim C4. When \<^verbatim>\<open>sqlite3.connect\<close> has returned the connection \<open>c\<close>, the variable
  \<^verbatim>\<open>conn\<close> holds, when \<^verbatim>\<open>insert_db\<close> ends, that connection as the append and the commit
  left it, closed by the \<^verbatim>\<open>finally\<close> block, and the last line printed says so. This holds
  on every path: the append and the commit succeed (the connection is then closed twice);
  one of them raises an \<^verbatim>\<open>sqlite3.Error\<close>, which is caught; or one of them raises anything
  else, which goes on to the caller after the connection has been closed.
\<close>

theorem insert_db_closes:
  assumes "sqlite3_connect env db_path = Inr c"
  shows "conn (fst (insert_db env df db_path table_name out)) =
           Some (conn_close
             (case to_sql env df table_name c of
                (c1, Some e) \<Rightarrow> c1
              | (c1, None) \<Rightarrow>
                  (case conn_commit c1 of
                     Inl e \<Rightarrow> c1
                   | Inr c2 \<Rightarrow> conn_close c2)))
       \<and> (\<exists>c'. conn (fst (insert_db env df db_path table_name out)) = Some c' \<and> closed c')
       \<and> last (printed (fst (insert_db env df db_path table_name out))) =
           tab @ ''c. Sqlite connection is closed''
       \<and> snd (insert_db env df db_path table_name out) =
           (case to_sql env df table_name c of
              (c1, Some e) \<Rightarrow> if is_sqlite3_Error e then Inr () else Inl e
            | (c1, None) \<Rightarrow>
                (case conn_commit c1 of
                   Inl e \<Rightarrow> if is_sqlite3_Error e then Inr () else Inl e
                 | Inr c2 \<Rightarrow> Inr ()))"
proof (cases "to_sql env df table_name c")
  case (Pair c1 r)
  show ?thesis
  proof (cases r)
    case None
    show ?thesis
    proof (cases "conn_commit c1")
      case (Inl e)
      with assms Pair None show ?thesis
        by (simp add: insert_db_def insert_try_def insert_except_def insert_finally_def
            conn_close_def Let_def)
    next
      case (Inr c2)
      with assms Pair None show ?thesis
        by (simp add: insert_db_def insert_try_def insert_except_def insert_finally_def
            conn_close_def Let_def)
    qed
  next
    case (Some e)
    with assms Pair show ?thesis
      by (simp add: insert_db_def insert_try_def insert_except_def insert_finally_def
          conn_close_def Let_def)
  qed
qed

theorem insert_db_closes_witness:
  "sqlite3_connect demo_env ''seascape.db'' = Inr \<lparr>closed = False, committed = 0, working = 0\<rparr>
   \<and> conn (fst (insert_db demo_env demo_table ''seascape.db'' ''images'' [])) =
       Some \<lparr>closed = True, committed = 2, working = 2\<rparr>
   \<and> snd (insert_db demo_env demo_table ''seascape.db'' ''images'' []) = Inr ()
   \<and> conn (fst (insert_db demo_env demo_table ''seascape.db'' [] [])) =
       Some \<lparr>closed = True, committed = 0, working = 0\<rparr>
   \<and> snd (insert_db demo_env demo_table ''seascape.db'' [] []) = Inr ()"
proof -
  have c: "sqlite3_connect demo_env ''seascape.db'' =
      Inr \<lparr>closed = False, committed = 0, working = 0\<rparr>"
    by (simp add: demo_env_def demo_connect_def)
  have t1: "to_sql demo_env demo_table ''images'' \<lparr>closed = False, committed = 0, working = 0\<rparr> =
      (\<lparr>closed = False, committed = 0, working = 2\<rparr>, None)"
    by (simp add: demo_env_def demo_to_sql_def demo_table_def)
  have t2: "to_sql demo_env demo_table [] \<lparr>closed = False, committed = 0, working = 0\<rparr> =
      (\<lparr>closed = False, committed = 0, working = 0\<rparr>, Some (Sqlite3Error ''syntax error''))"
    by (simp add: demo_env_def demo_to_sql_def)
  show ?thesis
    using c insert_db_closes [OF c, of demo_table "''images''" "[]"]
      insert_db_closes [OF c, of demo_table "[]" "[]"]
    by (simp add: t1 t2 conn_commit_def conn_close_def)
qed

section \<open>\<^verbatim>\<open>pull_data\<close>: the label column\<close>

lemma df_getitem_setitem: "df_getitem (df_setitem df col cells) col = Inr cells"
  by (induction df col cells rule: df_setitem.induct) (auto simp: df_getitem_def)

lemma fillna_filled:
  "list_all (\<lambda>v. v \<noteq> SqlNull \<and> (v \<in> set old \<or> v = SqlText u)) (fillna (SqlText u) old)"
  by (auto simp: fillna_def list_all_iff)

text \<open>
  Claim C9. When \<^verbatim>\<open>pull_data\<close> returns a table, the table was fetched by \<^verbatim>\<open>read_sql\<close>
  with the chosen query, and its label column is the fetched label column with the missing
  entries filled: it has as many entries, none of them is missing, and each is an entry of
  the fetched column or the sentinel \<^verbatim>\<open>IMG_UNLBLED\<close>.
\<close>

theorem pull_data_labels:
  assumes "pull_data env cfg image_date all filtered_size db_path out = Some (Inr df)"
  shows "\<exists>db query fetched old.
           Database_init env db_path out = Inr db
         \<and> get_query (year_format env) (SELECT_CMD cfg) image_date filtered_size all =
             Some (Inr query)
         \<and> read_sql env query (self_conn db) = Inr fetched
         \<and> df_getitem fetched (IMG_LBL cfg) = Inr old
         \<and> df_getitem df (IMG_LBL cfg) = Inr (fillna (SqlText (IMG_UNLBLED cfg)) old)
         \<and> length (fillna (SqlText (IMG_UNLBLED cfg)) old) = length old
         \<and> list_all (\<lambda>v. v \<noteq> SqlNull \<and> (v \<in> set old \<or> v = SqlText (IMG_UNLBLED cfg)))
              (fillna (SqlText (IMG_UNLBLED cfg)) old)"
proof -
  from assms obtain db where db: "Database_init env db_path out = Inr db"
    by (auto simp: pull_data_def split: sum.splits)
  from assms db obtain query where q:
      "get_query (year_format env) (SELECT_CMD cfg) image_date filtered_size all = Some (Inr query)"
      and f: "fetch_and_fill env cfg query db = Inr df"
    by (auto simp: pull_data_def split: sum.splits option.splits)
  from f obtain fetched where r: "read_sql env query (self_conn db) = Inr fetched"
    by (auto simp: fetch_and_fill_def split: sum.splits)
  from f r obtain old where o: "df_getitem fetched (IMG_LBL cfg) = Inr old"
    by (auto simp: fetch_and_fill_def split: sum.splits)
  from f r o have d: "df = df_setitem fetched (IMG_LBL cfg) (fillna (SqlText (IMG_UNLBLED cfg)) old)"
    by (auto simp: fetch_and_fill_def Let_def split: if_splits)
  have g: "df_getitem df (IMG_LBL cfg) = Inr (fillna (SqlText (IMG_UNLBLED cfg)) old)"
    unfolding d by (rule df_getitem_setitem)
  have l: "length (fillna (SqlText (IMG_UNLBLED cfg)) old) = length old"
    by (simp add: fillna_def)
  from db q r o g l fillna_filled [of old "IMG_UNLBLED cfg"] show ?thesis by blast
qed

lemma demo_select_all:
  "get_query style (SELECT_CMD demo_config) None False True = Some (Inr ''SELECT * FROM images'')"
  by (simp add: get_query_def demo_config_def)

lemma demo_fetch:
  "fetch_and_fill demo_env demo_config query
     \<lparr>stdout = out, self_conn = Some \<lparr>closed = False, committed = 0, working = 0\<rparr>\<rparr> =
   Inr [(''image_date'', [SqlText ''2023-01-01'', SqlText ''2023-01-01'']),
        (''label'', [SqlText ''diatom'', SqlText ''unlabeled''])]"
  by (simp add: fetch_and_fill_def demo_config_def demo_env_def demo_read_sql_def demo_table_def
      df_getitem_def fillna_def)

lemma demo_pull:
  "pull_data demo_env demo_config None True False ''seascape.db'' [] =
     Some (Inr [(''image_date'', [SqlText ''2023-01-01'', SqlText ''2023-01-01'']),
                (''label'', [SqlText ''diatom'', SqlText ''unlabeled''])])"
  by (simp add: pull_data_def demo_init demo_select_all demo_fetch)

theorem pull_data_labels_witness:
  "pull_data demo_env demo_config None True False ''seascape.db'' [] =
     Some (Inr [(''image_date'', [SqlText ''2023-01-01'', SqlText ''2023-01-01'']),
                (''label'', [SqlText ''diatom'', SqlText ''unlabeled''])])
   \<and> (\<exists>old. df_getitem [(''image_date'', [SqlText ''2023-01-01'', SqlText ''2023-01-01'']),
                          (''label'', [SqlText ''diatom'', SqlText ''unlabeled''])] ''label'' =
               Inr (fillna (SqlText ''unlabeled'') old)
            \<and> list_all (\<lambda>v. v \<noteq> SqlNull \<and> (v \<in> set old \<or> v = SqlText ''unlabeled''))
                 (fillna (SqlText ''unlabeled'') old))"
proof -
  have c: "IMG_LBL demo_config = ''label''" "IMG_UNLBLED demo_config = ''unlabeled''"
    by (simp_all add: demo_config_def)
  from pull_data_labels [OF demo_pull] show ?thesis
    unfolding c using demo_pull by blast
qed

end
